theory Spec2Isabelle
  imports Main
begin

section \<open>Python values used by the CDR report processor\<close>

text \<open>
  The processor of \<^verbatim>\<open>src/app/webex_cdr_processor.py\<close> reads rows produced by
  \<^verbatim>\<open>csv.DictReader\<close>: dictionaries from field names to strings, where a field
  missing from a short line is \<^verbatim>\<open>None\<close>. A Python string is modelled by a
  \<^typ>\<open>string\<close> whose characters are the code points U+0000 to U+00FF, one
  \<^typ>\<open>char\<close> per code point; on that range the library functions below are
  written out in full.
\<close>

datatype exn = ValueError | TypeError | AttributeError | SystemExit int | RequestError

datatype pyval = PStr string | PNone

type_synonym row = "string \<rightharpoonup> pyval"

definition chr_code :: "char \<Rightarrow> nat" where
  "chr_code c = of_char c"

text \<open>\<^verbatim>\<open>str.isdecimal\<close> on one character: the ASCII digits only, on this range.\<close>

definition chr_isdecimal :: "char \<Rightarrow> bool" where
  "chr_isdecimal c = (48 \<le> chr_code c \<and> chr_code c \<le> 57)"

text \<open>
  \<^verbatim>\<open>str.isdigit\<close> on one character: the decimal digits and the superscripts
  U+00B2, U+00B3 and U+00B9, which have a digit value but no decimal value.
\<close>

definition chr_isdigit :: "char \<Rightarrow> bool" where
  "chr_isdigit c = (chr_isdecimal c \<or> chr_code c = 178 \<or> chr_code c = 179 \<or> chr_code c = 185)"

definition str_isdigit :: "string \<Rightarrow> bool" where
  "str_isdigit s = (s \<noteq> [] \<and> list_all chr_isdigit s)"

definition chr_isspace :: "char \<Rightarrow> bool" where
  "chr_isspace c = (chr_code c \<in> {9, 10, 11, 12, 13, 28, 29, 30, 31, 32, 133, 160})"

definition chr_lower :: "char \<Rightarrow> char" where
  "chr_lower c =
     (let n = chr_code c in
      if (65 \<le> n \<and> n \<le> 90) \<or> (192 \<le> n \<and> n \<le> 222 \<and> n \<noteq> 215)
      then char_of (n + 32) else c)"

definition str_lower :: "string \<Rightarrow> string" where
  "str_lower s = map chr_lower s"

definition digit_value :: "char \<Rightarrow> int" where
  "digit_value c = int (chr_code c) - 48"

text \<open>
  \<^verbatim>\<open>int(s)\<close> for a string, base 10: surrounding white space is dropped, one sign is
  allowed, then decimal digits with single underscores between them. Anything else is a
  \<^verbatim>\<open>ValueError\<close>, and so is a literal of more than 4300 digits (the interpreter's
  default limit for the conversion).
\<close>

fun int_digits :: "int \<Rightarrow> string \<Rightarrow> int option" where
  "int_digits acc [] = Some acc"
| "int_digits acc [c] = (if chr_isdecimal c then Some (acc * 10 + digit_value c) else None)"
| "int_digits acc (c # d # cs) =
     (if chr_isdecimal c then int_digits (acc * 10 + digit_value c) (d # cs)
      else if c = CHR ''_'' \<and> chr_isdecimal d then int_digits (acc * 10 + digit_value d) cs
      else None)"

definition int_unsigned :: "string \<Rightarrow> int option" where
  "int_unsigned s =
     (case s of [] \<Rightarrow> None
      | c # cs \<Rightarrow> if chr_isdecimal c then int_digits (digit_value c) cs else None)"

definition int_max_str_digits :: nat where
  "int_max_str_digits = 4300"

definition str_strip :: "string \<Rightarrow> string" where
  "str_strip s = rev (dropWhile chr_isspace (rev (dropWhile chr_isspace s)))"

definition py_int :: "string \<Rightarrow> exn + int" where
  "py_int s =
     (let t = str_strip s;
          neg = (t \<noteq> [] \<and> hd t = CHR ''-'');
          body = (if t \<noteq> [] \<and> (hd t = CHR ''-'' \<or> hd t = CHR ''+'') then tl t else t)
      in if int_max_str_digits < length (filter chr_isdecimal body) then Inl ValueError
         else case int_unsigned body of
                None \<Rightarrow> Inl ValueError
              | Some n \<Rightarrow> Inr (if neg then - n else n))"

section \<open>Reading a row\<close>

text \<open>\<^verbatim>\<open>item.get(key, default)\<close>.\<close>

definition dict_get :: "row \<Rightarrow> string \<Rightarrow> pyval \<Rightarrow> pyval" where
  "dict_get item k d = (case item k of None \<Rightarrow> d | Some v \<Rightarrow> v)"

text \<open>
  The expression of lines 108, 121 and 154,
  \<^verbatim>\<open>int(item.get('Duration', 0)) if item.get('Duration', '').isdigit() else 0\<close>.
  The guard calls \<^verbatim>\<open>isdigit\<close> on the field, which \<^verbatim>\<open>None\<close> does not have; when
  the guard holds the field is present, so \<^verbatim>\<open>int\<close> receives the same string.
\<close>

definition parse_duration :: "row \<Rightarrow> exn + int" where
  "parse_duration item =
     (case dict_get item ''Duration'' (PStr '''') of
        PNone \<Rightarrow> Inl AttributeError
      | PStr s \<Rightarrow> if str_isdigit s then py_int s else Inr 0)"

text \<open>
  \<^verbatim>\<open>item.get(key, '').lower() == lit\<close>: \<^verbatim>\<open>None\<close> has no \<^verbatim>\<open>lower\<close>.
\<close>

definition field_lower :: "row \<Rightarrow> string \<Rightarrow> exn + string" where
  "field_lower item k =
     (case dict_get item k (PStr '''') of
        PNone \<Rightarrow> Inl AttributeError
      | PStr s \<Rightarrow> Inr (str_lower s))"

section \<open>Dictionaries in insertion order\<close>

text \<open>
  The metric dictionaries are association lists in the order in which their keys were
  first stored, as a Python \<^verbatim>\<open>dict\<close> keeps them: \<open>dict_set\<close> replaces the value of
  a key that is there and appends a new key at the end.
\<close>

fun dict_set :: "'k \<Rightarrow> 'v \<Rightarrow> ('k \<times> 'v) list \<Rightarrow> ('k \<times> 'v) list" where
  "dict_set k v [] = [(k, v)]"
| "dict_set k v ((k', v') # d) =
     (if k = k' then (k', v) # d else (k', v') # dict_set k v d)"

section \<open>The metrics accumulator\<close>

record bucket =
  b_total_calls :: int
  b_connected_calls :: int
  b_voicemail_calls :: int
  b_total_duration :: int

text \<open>
  \<open>response_times\<close> holds each sample as a whole number of microseconds, the resolution
  of a \<^verbatim>\<open>timedelta\<close>; the source stores the same quantity in seconds as a float.
\<close>

record metrics =
  total_duration :: int
  total_calls :: int
  connected_calls :: int
  voicemail_calls :: int
  response_times :: "int list"
  call_outcomes :: "(pyval \<times> int) list"
  department_calls :: "(pyval \<times> bucket) list"
  user_calls :: "(pyval \<times> bucket) list"

definition init_metrics :: metrics where
  "init_metrics =
     \<lparr>total_duration = 0, total_calls = 0, connected_calls = 0, voicemail_calls = 0,
      response_times = [], call_outcomes = [], department_calls = [], user_calls = []\<rparr>"

definition new_bucket :: bucket where
  "new_bucket =
     \<lparr>b_total_calls = 0, b_connected_calls = 0, b_voicemail_calls = 0, b_total_duration = 0\<rparr>"

text \<open>
  A \<^verbatim>\<open>datetime\<close> is naive or aware; the number is its position on the time line in
  microseconds. Subtracting a naive from an aware one, or the reverse, is a
  \<^verbatim>\<open>TypeError\<close>.
\<close>

datatype pydatetime = Naive int | Aware int

fun datetime_sub :: "pydatetime \<Rightarrow> pydatetime \<Rightarrow> exn + int" where
  "datetime_sub (Naive a) (Naive b) = Inr (a - b)"
| "datetime_sub (Aware a) (Aware b) = Inr (a - b)"
| "datetime_sub (Naive a) (Aware b) = Inl TypeError"
| "datetime_sub (Aware a) (Naive b) = Inl TypeError"

text \<open>
  \<^verbatim>\<open>datetime.fromisoformat\<close> is a parameter \<open>fromiso\<close> of the model: \<open>None\<close> stands for
  its \<^verbatim>\<open>ValueError\<close>.
\<close>

type_synonym isoparser = "string \<Rightarrow> pydatetime option"

text \<open>
  Lines 103 to 108 of \<^verbatim>\<open>update_department_calls\<close>, which lines 116 to 121 of
  \<^verbatim>\<open>update_user_calls\<close> repeat: the bucket is changed in place, so what was added
  before an exception stays. The second component is the exception that leaves the
  function, if any.
\<close>

definition update_bucket :: "bucket \<Rightarrow> row \<Rightarrow> bucket \<times> exn option" where
  "update_bucket b item =
     (let b1 = b\<lparr>b_total_calls := b_total_calls b + 1\<rparr> in
      case field_lower item ''Answered'' of
        Inl e \<Rightarrow> (b1, Some e)
      | Inr a \<Rightarrow>
          (case (if a = ''true'' then Inr (b1\<lparr>b_connected_calls := b_connected_calls b1 + 1\<rparr>)
                 else case field_lower item ''Call outcome reason'' of
                        Inl e \<Rightarrow> Inl e
                      | Inr r \<Rightarrow>
                          Inr (if r = ''voicemail''
                               then b1\<lparr>b_voicemail_calls := b_voicemail_calls b1 + 1\<rparr>
                               else b1)) of
             Inl e \<Rightarrow> (b1, Some e)
           | Inr b2 \<Rightarrow>
               (case parse_duration item of
                  Inl e \<Rightarrow> (b2, Some e)
                | Inr d \<Rightarrow> (b2\<lparr>b_total_duration := b_total_duration b2 + d\<rparr>, None))))"

text \<open>Lines 99 to 102 and 112 to 115: the bucket of the key, made on its first use.\<close>

definition update_keyed :: "pyval \<Rightarrow> row \<Rightarrow> (pyval \<times> bucket) list \<Rightarrow> (pyval \<times> bucket) list \<times> exn option" where
  "update_keyed k item d =
     (let b = (case map_of d k of None \<Rightarrow> new_bucket | Some b \<Rightarrow> b);
          (b', e) = update_bucket b item
      in (dict_set k b' d, e))"

definition update_department_calls :: "metrics \<Rightarrow> row \<Rightarrow> metrics \<times> exn option" where
  "update_department_calls m item =
     (let (d, e) = update_keyed (dict_get item ''Department ID'' (PStr ''Unknown'')) item
                     (department_calls m)
      in (m\<lparr>department_calls := d\<rparr>, e))"

definition update_user_calls :: "metrics \<Rightarrow> row \<Rightarrow> metrics \<times> exn option" where
  "update_user_calls m item =
     (let (d, e) = update_keyed (dict_get item ''User'' (PStr ''Unknown'')) item (user_calls m)
      in (m\<lparr>user_calls := d\<rparr>, e))"

text \<open>
  Lines 167 to 176: the response-time sample. A \<^verbatim>\<open>ValueError\<close> of either parse is
  caught and the sample skipped; the \<^verbatim>\<open>TypeError\<close> of the subtraction is not caught
  there.
\<close>

definition add_response_time :: "isoparser \<Rightarrow> metrics \<Rightarrow> row \<Rightarrow> metrics \<times> exn option" where
  "add_response_time fromiso m item =
     (let answer_time_str = dict_get item ''Answer time'' (PStr '''');
          start_time_str = dict_get item ''Start time'' (PStr '''')
      in case (answer_time_str, start_time_str) of
           (PStr a, PStr s) \<Rightarrow>
             (if a \<noteq> [] \<and> s \<noteq> [] then
                (case fromiso a of
                   None \<Rightarrow> (m, None)
                 | Some answer_time \<Rightarrow>
                     (case fromiso s of
                        None \<Rightarrow> (m, None)
                      | Some start_time \<Rightarrow>
                          (case datetime_sub answer_time start_time of
                             Inl e \<Rightarrow> (m, Some e)
                           | Inr response_time \<Rightarrow>
                               (m\<lparr>response_times := response_times m @ [response_time]\<rparr>, None))))
              else (m, None))
         | _ \<Rightarrow> (m, None))"

text \<open>Lines 178 and 179.\<close>

definition count_outcome :: "metrics \<Rightarrow> row \<Rightarrow> metrics" where
  "count_outcome m item =
     (let outcome = dict_get item ''Call outcome'' (PStr ''Unknown'');
          n = (case map_of (call_outcomes m) outcome of None \<Rightarrow> 0 | Some c \<Rightarrow> c)
      in m\<lparr>call_outcomes := dict_set outcome (n + 1) (call_outcomes m)\<rparr>)"

text \<open>
  \<^verbatim>\<open>process_call_record\<close>, lines 151 to 183, statement by statement: the metrics as
  they are when the function is left, and the exception that leaves it, if any.
\<close>

definition process_call_record :: "isoparser \<Rightarrow> metrics \<Rightarrow> row \<Rightarrow> metrics \<times> exn option" where
  "process_call_record fromiso m item =
     (case parse_duration item of
        Inl e \<Rightarrow> (m, Some e)
      | Inr duration \<Rightarrow>
          (let m1 = m\<lparr>total_duration := total_duration m + duration,
                      total_calls := total_calls m + 1\<rparr> in
           case field_lower item ''Answered'' of
             Inl e \<Rightarrow> (m1, Some e)
           | Inr a \<Rightarrow>
               (case field_lower item ''Call outcome reason'' of
                  Inl e \<Rightarrow> (m1, Some e)
                | Inr call_outcome_reason \<Rightarrow>
                    (let m2 = (if a = ''true''
                               then m1\<lparr>connected_calls := connected_calls m1 + 1\<rparr>
                               else if call_outcome_reason = ''voicemail''
                               then m1\<lparr>voicemail_calls := voicemail_calls m1 + 1\<rparr>
                               else m1) in
                     case add_response_time fromiso m2 item of
                       (m3, Some e) \<Rightarrow> (m3, Some e)
                     | (m3, None) \<Rightarrow>
                         (case update_department_calls (count_outcome m3 item) item of
                            (m4, Some e) \<Rightarrow> (m4, Some e)
                          | (m4, None) \<Rightarrow> update_user_calls m4 item)))))"

text \<open>
  \<^verbatim>\<open>process_all_cdr_records\<close>, lines 185 to 191: the loop stops at the first
  exception; a \<^verbatim>\<open>TypeError\<close> is caught and logged, any other exception leaves the
  function.
\<close>

fun process_loop :: "isoparser \<Rightarrow> metrics \<Rightarrow> row list \<Rightarrow> metrics \<times> exn option" where
  "process_loop fromiso m [] = (m, None)"
| "process_loop fromiso m (item # items) =
     (case process_call_record fromiso m item of
        (m', Some e) \<Rightarrow> (m', Some e)
      | (m', None) \<Rightarrow> process_loop fromiso m' items)"

definition process_all_cdr_records :: "isoparser \<Rightarrow> metrics \<Rightarrow> row list \<Rightarrow> metrics \<times> exn option" where
  "process_all_cdr_records fromiso m cdr_data =
     (case process_loop fromiso m cdr_data of
        (m', Some e) \<Rightarrow> (if e = TypeError then (m', None) else (m', Some e))
      | (m', None) \<Rightarrow> (m', None))"

text \<open>The totals of a column over the buckets of a dictionary, and of the outcome counts.\<close>

definition sum_buckets :: "(bucket \<Rightarrow> int) \<Rightarrow> (pyval \<times> bucket) list \<Rightarrow> int" where
  "sum_buckets f d = sum_list (map (\<lambda>kv. f (snd kv)) d)"

definition sum_outcomes :: "(pyval \<times> int) list \<Rightarrow> int" where
  "sum_outcomes d = sum_list (map snd d)"

section \<open>The remote platform and the operator\<close>

text \<open>
  What the platform and the operator answer is a parameter of the model. A call either
  returns or raises an exception of class \<^verbatim>\<open>Exception\<close>, which the model writes
  \<open>RequestError\<close>. What matters of the exception object is its \<^verbatim>\<open>response\<close>
  attribute, which line 92 looks for: it has none, or one that is \<^verbatim>\<open>None\<close> (as the
  connection errors of the \<^verbatim>\<open>requests\<close> library have), or one that is a response.
  The answers are indexed by the number of earlier calls of the same kind. A status
  query also takes some time, counted in the unit of \<^verbatim>\<open>time.time\<close>. Stored reports
  are known by their \<^verbatim>\<open>Id\<close>.
\<close>

datatype raised = NoResponse | NoneResponse | HttpResponse

datatype 'a reply = Raises raised | Returns 'a

record world =
  webex_ok :: bool
  cdr_report :: "string option reply"
  report_status :: "nat \<Rightarrow> nat \<times> string reply"
  get_report_lines :: "string list reply"
  list_reports :: "nat \<Rightarrow> string list reply"
  inputs :: "nat \<Rightarrow> string reply"
  delete_status :: "string option \<Rightarrow> nat reply"

record config =
  NUMBER_OF_DAYS_CDR_REPORT :: "int option"
  START_DATE :: "string option"
  END_DATE :: "string option"

text \<open>What the run does to the outside, in the order in which it does it.\<close>

datatype event =
    CreateDays int
  | CreateRange "string option" "string option"
  | ReadClock
  | Sleep nat
  | Status "string option"
  | LogTimeout
  | GetLines "string option"
  | LogNoData
  | LogFetchError
  | ListReports
  | Input
  | Delete "string option"
  | Exit
  | WriteCsv
  | LogFinished
  | LogNothingToProcess
  | LogRunError

definition opt_truthy :: "string option \<Rightarrow> bool" where
  "opt_truthy v = (case v of None \<Rightarrow> False | Some s \<Rightarrow> s \<noteq> [])"

section \<open>The poller\<close>

definition timeout :: nat where
  "timeout = 60 * 30"

datatype poll_end = PollDone | PollTimeout | PollRaised raised

text \<open>
  The loop of lines 74 to 80. \<open>k\<close> status queries have been made, \<open>elapsed\<close> is
  \<^verbatim>\<open>time.time() - start_time\<close> at the next reading of the clock, and
  \<open>status\<close> is the value of \<^verbatim>\<open>report_status\<close>. Every turn sleeps 30 units, so the
  loop ends.
\<close>

function poll_loop :: "world \<Rightarrow> string option \<Rightarrow> nat \<Rightarrow> nat \<Rightarrow> string \<Rightarrow> poll_end \<times> event list" where
  "poll_loop w report_id k elapsed status =
     (if status = ''done'' then (PollDone, [])
      else if timeout < elapsed then (PollTimeout, [ReadClock, LogTimeout])
      else case report_status w k of
             (latency, Raises x) \<Rightarrow> (PollRaised x, [ReadClock, Sleep 30, Status report_id])
           | (latency, Returns status') \<Rightarrow>
               (case poll_loop w report_id (Suc k) (elapsed + 30 + latency) status' of
                  (r, evs) \<Rightarrow> (r, ReadClock # Sleep 30 # Status report_id # evs)))"
  by pat_completeness auto
termination
  by (relation "measure (\<lambda>(w, report_id, k, elapsed, status). Suc timeout - elapsed)") auto

text \<open>
  \<^verbatim>\<open>csv.DictReader\<close> over the joined lines is a parameter \<open>reader\<close> of the model.
\<close>

type_synonym csvreader = "string list \<Rightarrow> row list reply"

text \<open>
  The result of \<^verbatim>\<open>fetch_cdr_data\<close>: \<open>Inr None\<close> for Python's \<^verbatim>\<open>None\<close>,
  \<open>Inr (Some (rows, report_id))\<close> for the pair of line 88, \<open>Inl e\<close> for an
  exception that leaves the function.
\<close>

type_synonym fetched = "exn + (row list \<times> string option) option"

text \<open>
  The handler of lines 90 to 94. It returns \<^verbatim>\<open>None\<close>, but line 93 reads
  \<^verbatim>\<open>e.response.status_code\<close> whenever the exception has a \<^verbatim>\<open>response\<close> attribute:
  when that attribute is \<^verbatim>\<open>None\<close> the handler itself raises \<^verbatim>\<open>AttributeError\<close>.
\<close>

definition fetch_except :: "raised \<Rightarrow> event list \<Rightarrow> fetched \<times> event list" where
  "fetch_except x evs =
     (case x of
        NoneResponse \<Rightarrow> (Inl AttributeError, evs @ [LogFetchError])
      | _ \<Rightarrow> (Inr None, evs @ [LogFetchError]))"

text \<open>\<^verbatim>\<open>fetch_cdr_data\<close>, lines 48 to 94.\<close>

definition fetch_cdr_data ::
  "csvreader \<Rightarrow> world \<Rightarrow> config \<Rightarrow> int option \<Rightarrow> fetched \<times> event list" where
  "fetch_cdr_data reader w cfg num_days =
     (if \<not> webex_ok w then (Inr None, [])
      else
        let by_days = (case num_days of None \<Rightarrow> False | Some n \<Rightarrow> n \<noteq> 0);
            create = (case num_days of
                        None \<Rightarrow> CreateRange (START_DATE cfg) (END_DATE cfg)
                      | Some n \<Rightarrow> if n \<noteq> 0 then CreateDays n
                                  else CreateRange (START_DATE cfg) (END_DATE cfg))
        in case cdr_report w of
             Raises x \<Rightarrow> fetch_except x [create]
           | Returns report_id \<Rightarrow>
               if by_days \<and> \<not> opt_truthy report_id then (Inr None, [create])
               else
                 (case poll_loop w report_id 0 0 ''unknown'' of
                    (PollRaised x, evs) \<Rightarrow> fetch_except x (create # ReadClock # evs)
                  | (PollTimeout, evs) \<Rightarrow> (Inr None, create # ReadClock # evs)
                  | (PollDone, evs) \<Rightarrow>
                      (case get_report_lines w of
                         Raises x \<Rightarrow>
                           fetch_except x (create # ReadClock # evs @ [GetLines report_id])
                       | Returns report_lines \<Rightarrow>
                           if report_lines = []
                           then (Inr None,
                                 create # ReadClock # evs @ [GetLines report_id, LogNoData])
                           else
                             (case reader report_lines of
                                Raises x \<Rightarrow>
                                  fetch_except x
                                    (create # ReadClock # evs @ [GetLines report_id])
                              | Returns rows \<Rightarrow>
                                  (Inr (Some (rows, report_id)),
                                   create # ReadClock # evs @ [GetLines report_id])))))"

text \<open>\<^verbatim>\<open>fetch_cdr_data_based_on_config\<close>, lines 234 to 241.\<close>

definition fetch_cdr_data_based_on_config ::
  "csvreader \<Rightarrow> world \<Rightarrow> config \<Rightarrow> fetched \<times> event list" where
  "fetch_cdr_data_based_on_config reader w cfg =
     (case NUMBER_OF_DAYS_CDR_REPORT cfg of
        Some n \<Rightarrow>
          if n \<noteq> 0 then fetch_cdr_data reader w cfg (Some n)
          else if opt_truthy (START_DATE cfg) \<and> opt_truthy (END_DATE cfg)
          then fetch_cdr_data reader w cfg None
          else (Inr None, [])
      | None \<Rightarrow>
          if opt_truthy (START_DATE cfg) \<and> opt_truthy (END_DATE cfg)
          then fetch_cdr_data reader w cfg None
          else (Inr None, []))"

text \<open>
  The pace of a trace of events, read from left to right with the two events before the
  current one and whether the timeout was logged: a status query comes directly after
  the reading of the clock and the sleep of 30 units, in that order, and never after the
  timeout was logged; a sleep comes directly after a reading of the clock.
\<close>

fun is_status :: "event \<Rightarrow> bool" where
  "is_status (Status r) = True"
| "is_status e = False"

fun is_sleep :: "event \<Rightarrow> bool" where
  "is_sleep (Sleep n) = True"
| "is_sleep e = False"

fun paced_from :: "event option \<Rightarrow> event option \<Rightarrow> bool \<Rightarrow> event list \<Rightarrow> bool" where
  "paced_from p2 p1 t [] = True"
| "paced_from p2 p1 t (e # es) =
     ((if is_status e then p2 = Some ReadClock \<and> p1 = Some (Sleep 30) \<and> \<not> t
       else if is_sleep e then p1 = Some ReadClock
       else True)
      \<and> paced_from p1 (Some e) (t \<or> e = LogTimeout) es)"

definition paced :: "event list \<Rightarrow> bool" where
  "paced es = paced_from None None False es"

section \<open>The configuration layer\<close>




section \<open>The quota guard and the run\<close>

text \<open>
  \<^verbatim>\<open>except Exception\<close> catches every exception of the model but \<^verbatim>\<open>SystemExit\<close>,
  which derives from \<^verbatim>\<open>BaseException\<close> only.
\<close>

definition is_Exception :: "exn \<Rightarrow> bool" where
  "is_Exception e = (case e of SystemExit c \<Rightarrow> False | _ \<Rightarrow> True)"

text \<open>
  \<^verbatim>\<open>get_all_reports\<close>, lines 193 to 198, at its \<open>k\<close>-th call: \<open>None\<close> when the
  listing raises, also when \<^verbatim>\<open>self.webex\<close> is \<^verbatim>\<open>None\<close>.
\<close>

definition get_all_reports :: "world \<Rightarrow> nat \<Rightarrow> string list option \<times> event list" where
  "get_all_reports w k =
     (if \<not> webex_ok w then (None, [])
      else case list_reports w k of
             Raises x \<Rightarrow> (None, [ListReports])
           | Returns reports \<Rightarrow> (Some reports, [ListReports]))"

text \<open>
  \<^verbatim>\<open>MyWebex.delete_report\<close> of \<^verbatim>\<open>src/app/webex_api.py\<close>, lines 94 to 109: the
  request may raise; otherwise the result says whether the status code was 204.
\<close>

definition delete_report :: "world \<Rightarrow> string option \<Rightarrow> (exn + bool) \<times> event list" where
  "delete_report w report_id =
     (case delete_status w report_id of
        Raises x \<Rightarrow> (Inl RequestError, [Delete report_id])
      | Returns status_code \<Rightarrow> (Inr (status_code = 204), [Delete report_id]))"

text \<open>The loop of lines 223 and 224.\<close>

fun delete_each :: "world \<Rightarrow> string list \<Rightarrow> exn option \<times> event list" where
  "delete_each w [] = (None, [])"
| "delete_each w (report # reports) =
     (case delete_report w (Some report) of
        (Inl e, evs) \<Rightarrow> (Some e, evs)
      | (Inr ok, evs) \<Rightarrow>
          (case delete_each w reports of (r, evs') \<Rightarrow> (r, evs @ evs')))"

text \<open>
  The remediation of lines 215 to 226 for the stripped answer \<open>delete_option\<close>:
  \<^verbatim>\<open>sys.exit(1)\<close> raises \<^verbatim>\<open>SystemExit\<close>.
\<close>

definition remediate :: "world \<Rightarrow> string list \<Rightarrow> string \<Rightarrow> exn option \<times> event list" where
  "remediate w existing_reports delete_option =
     (if delete_option = ''1'' then
        (case inputs w 1 of
           Raises x \<Rightarrow> (Some RequestError, [Input])
         | Returns report_id_to_delete \<Rightarrow>
             (case delete_report w (Some (str_strip report_id_to_delete)) of
                (Inl e, evs) \<Rightarrow> (Some e, Input # evs)
              | (Inr ok, evs) \<Rightarrow> (None, Input # evs)))
      else if delete_option = ''2'' then delete_each w existing_reports
      else if delete_option = ''3'' then (Some (SystemExit 1), [Exit])
      else (None, []))"

text \<open>\<^verbatim>\<open>handle_existing_reports\<close>, lines 200 to 232. \<^verbatim>\<open>len(None)\<close> is a \<^verbatim>\<open>TypeError\<close>.\<close>

definition handle_existing_reports :: "world \<Rightarrow> (exn + bool) \<times> event list" where
  "handle_existing_reports w =
     (case get_all_reports w 0 of
        (None, evs) \<Rightarrow> (Inl TypeError, evs)
      | (Some existing_reports, evs) \<Rightarrow>
          if length existing_reports = 50 then
            (case inputs w 0 of
               Raises x \<Rightarrow> (Inl RequestError, evs @ [Input])
             | Returns answer \<Rightarrow>
                 (case remediate w existing_reports (str_strip answer) of
                    (Some e, evs2) \<Rightarrow> (Inl e, evs @ Input # evs2)
                  | (None, evs2) \<Rightarrow>
                      (case get_all_reports w 1 of
                         (None, evs3) \<Rightarrow> (Inl TypeError, evs @ Input # evs2 @ evs3)
                       | (Some again, evs3) \<Rightarrow>
                           (Inr (length again < 50), evs @ Input # evs2 @ evs3))))
          else (Inr (length existing_reports < 50), evs))"

text \<open>
  The handler of lines 265 and 266: an exception of class \<^verbatim>\<open>Exception\<close> is logged and
  the run returns; any other exception leaves \<^verbatim>\<open>run_report\<close>.
\<close>

definition run_except :: "exn \<Rightarrow> metrics \<Rightarrow> event list \<Rightarrow> exn option \<times> metrics \<times> event list" where
  "run_except e m evs = (if is_Exception e then (None, m, evs @ [LogRunError]) else (Some e, m, evs))"

text \<open>
  \<^verbatim>\<open>run_report\<close>, lines 243 to 266: the exception that reaches the caller, if any, the
  metrics and the trace. \<^verbatim>\<open>write_to_csv\<close> catches every exception of its own.
  Unpacking \<^verbatim>\<open>None\<close> at line 248 is a \<^verbatim>\<open>TypeError\<close>.
\<close>

definition run_report ::
  "isoparser \<Rightarrow> csvreader \<Rightarrow> world \<Rightarrow> config \<Rightarrow> metrics \<Rightarrow> exn option \<times> metrics \<times> event list" where
  "run_report fromiso reader w cfg m =
     (case handle_existing_reports w of
        (Inl e, evs) \<Rightarrow> run_except e m evs
      | (Inr can_go_on, evs) \<Rightarrow>
          if \<not> can_go_on then (None, m, evs)
          else
            (case fetch_cdr_data_based_on_config reader w cfg of
               (Inl e, evs2) \<Rightarrow> run_except e m (evs @ evs2)
             | (Inr None, evs2) \<Rightarrow> run_except TypeError m (evs @ evs2)
             | (Inr (Some (cdr_data, report_id)), evs2) \<Rightarrow>
                 (case cdr_data of
                    [] \<Rightarrow> (None, m, evs @ evs2 @ [LogNothingToProcess])
                  | item # items \<Rightarrow>
                      (case process_all_cdr_records fromiso m cdr_data of
                         (m', Some e) \<Rightarrow> run_except e m' (evs @ evs2 @ [WriteCsv])
                       | (m', None) \<Rightarrow>
                           (case delete_report w report_id of
                              (Inl e, evs3) \<Rightarrow> run_except e m' (evs @ evs2 @ WriteCsv # evs3)
                            | (Inr ok, evs3) \<Rightarrow>
                                (None, m', evs @ evs2 @ WriteCsv # evs3 @ [LogFinished]))))))"

section \<open>Duration parsing\<close>

lemma int_digits_nonneg: "0 \<le> acc \<Longrightarrow> int_digits acc s = Some n \<Longrightarrow> 0 \<le> n"
proof (induction acc s rule: int_digits.induct)
  case (1 acc)
  then show ?case by simp
next
  case (2 acc c)
  then show ?case
    by (auto simp: chr_isdecimal_def digit_value_def split: if_splits)
next
  case (3 acc c d cs)
  then show ?case
    by (auto simp: chr_isdecimal_def digit_value_def split: if_splits)
qed

lemma int_digits_decimal:
  "list_all chr_isdecimal s \<Longrightarrow> \<exists>n. int_digits acc s = Some n"
  by (induction acc s rule: int_digits.induct) auto

text \<open>
  What the claim says of duration parsing holds for an absent field, for a string that
  fails \<^verbatim>\<open>isdigit\<close> and for a string of at most 4300 decimal digits.
\<close>

lemma parse_duration_absent: "item ''Duration'' = None \<Longrightarrow> parse_duration item = Inr 0"
  by (simp add: parse_duration_def dict_get_def str_isdigit_def)

lemma parse_duration_not_digits:
  "item ''Duration'' = Some (PStr s) \<Longrightarrow> \<not> str_isdigit s \<Longrightarrow> parse_duration item = Inr 0"
  by (simp add: parse_duration_def dict_get_def)

lemma strip_decimal: "s \<noteq> [] \<Longrightarrow> list_all chr_isdecimal s \<Longrightarrow> str_strip s = s"
proof -
  assume ne: "s \<noteq> []" and d: "list_all chr_isdecimal s"
  have ns: "chr_isdecimal c \<Longrightarrow> \<not> chr_isspace c" for c
    by (auto simp: chr_isdecimal_def chr_isspace_def)
  from ne d have "\<not> chr_isspace (hd s)" "\<not> chr_isspace (last s)"
    using ns by (auto simp: list_all_iff)
  with ne have a: "dropWhile chr_isspace s = s" and b: "dropWhile chr_isspace (rev s) = rev s"
    by (simp_all add: dropWhile_eq_self_iff hd_rev)
  show ?thesis
    by (simp add: str_strip_def a b)
qed

lemma parse_duration_decimal:
  assumes "item ''Duration'' = Some (PStr s)" and "s \<noteq> []" and "list_all chr_isdecimal s"
    and "length s \<le> int_max_str_digits"
  shows "\<exists>n\<ge>0. parse_duration item = Inr n"
proof -
  obtain c cs where s: "s = c # cs" using assms(2) by (cases s) auto
  have c: "chr_isdecimal c" and cs: "list_all chr_isdecimal cs" using assms(3) s by auto
  have nosign: "c \<noteq> CHR ''-''" "c \<noteq> CHR ''+''"
    using c by (auto simp: chr_isdecimal_def chr_code_def)
  obtain n where n: "int_digits (digit_value c) cs = Some n"
    using int_digits_decimal[OF cs] by blast
  have "0 \<le> digit_value c" using c by (simp add: chr_isdecimal_def digit_value_def)
  from int_digits_nonneg[OF this n] have "0 \<le> n" .
  have dig: "str_isdigit s" using assms(2,3) by (auto simp: str_isdigit_def chr_isdigit_def list_all_iff)
  have len: "\<not> int_max_str_digits < length (filter chr_isdecimal s)"
    using assms(4) length_filter_le[of chr_isdecimal s] by linarith
  have "py_int s = Inr n"
    using strip_decimal[OF assms(2,3)] s nosign c n len
    by (simp add: py_int_def int_unsigned_def Let_def)
  with dig assms(1) \<open>0 \<le> n\<close> show ?thesis
    by (auto simp: parse_duration_def dict_get_def)
qed

text \<open>
  C3, evaluated on the code: the duration field made of the one character U+00B2 (superscript two) passes
  the \<^verbatim>\<open>isdigit\<close> guard and \<^verbatim>\<open>int\<close> then raises \<^verbatim>\<open>ValueError\<close>, so duration
  parsing does raise on a string that is not made of decimal digits.
\<close>

theorem parse_duration_superscript_raises:
  "parse_duration [''Duration'' \<mapsto> PStr [CHR 0xB2]] = Inl ValueError"
  by (simp add: parse_duration_def dict_get_def str_isdigit_def chr_isdigit_def
      chr_isdecimal_def chr_code_def py_int_def str_strip_def chr_isspace_def
      int_unsigned_def int_max_str_digits_def)

section \<open>Aggregation\<close>


lemma add_response_time_keeps:
  "add_response_time f m item = (m', e) \<Longrightarrow>
     total_duration m' = total_duration m \<and> total_calls m' = total_calls m \<and>
     connected_calls m' = connected_calls m \<and> voicemail_calls m' = voicemail_calls m \<and>
     call_outcomes m' = call_outcomes m \<and> department_calls m' = department_calls m \<and>
     user_calls m' = user_calls m"
  by (auto simp: add_response_time_def Let_def split: pyval.splits if_splits option.splits sum.splits)

lemma count_outcome_keeps:
  "total_duration (count_outcome m item) = total_duration m \<and>
   total_calls (count_outcome m item) = total_calls m \<and>
   connected_calls (count_outcome m item) = connected_calls m \<and>
   voicemail_calls (count_outcome m item) = voicemail_calls m \<and>
   department_calls (count_outcome m item) = department_calls m \<and>
   user_calls (count_outcome m item) = user_calls m"
  by (simp add: count_outcome_def Let_def)

lemma update_department_calls_keeps:
  "update_department_calls m item = (m', e) \<Longrightarrow>
     total_duration m' = total_duration m \<and> total_calls m' = total_calls m \<and>
     connected_calls m' = connected_calls m \<and> voicemail_calls m' = voicemail_calls m \<and>
     call_outcomes m' = call_outcomes m \<and> user_calls m' = user_calls m"
  by (auto simp: update_department_calls_def Let_def split: prod.splits)

lemma update_user_calls_keeps:
  "update_user_calls m item = (m', e) \<Longrightarrow>
     total_duration m' = total_duration m \<and> total_calls m' = total_calls m \<and>
     connected_calls m' = connected_calls m \<and> voicemail_calls m' = voicemail_calls m \<and>
     call_outcomes m' = call_outcomes m \<and> department_calls m' = department_calls m"
  by (auto simp: update_user_calls_def Let_def split: prod.splits)

text \<open>
  What \<^verbatim>\<open>process_call_record\<close> does to the four global counters, wherever it is left.
\<close>

lemma process_call_record_counters:
  assumes "process_call_record f m item = (m', e)"
  shows "(case parse_duration item of
            Inl x \<Rightarrow> m' = m \<and> e = Some x
          | Inr d \<Rightarrow>
              total_duration m' = total_duration m + d \<and> total_calls m' = total_calls m + 1 \<and>
              (case field_lower item ''Answered'' of
                 Inl x \<Rightarrow> connected_calls m' = connected_calls m \<and> voicemail_calls m' = voicemail_calls m \<and> e = Some x
               | Inr a \<Rightarrow>
                  (case field_lower item ''Call outcome reason'' of
                     Inl x \<Rightarrow> connected_calls m' = connected_calls m \<and> voicemail_calls m' = voicemail_calls m \<and> e = Some x
                   | Inr r \<Rightarrow>
                       connected_calls m' = connected_calls m + (if a = ''true'' then 1 else 0) \<and>
                       voicemail_calls m' = voicemail_calls m + (if a \<noteq> ''true'' \<and> r = ''voicemail'' then 1 else 0))))"
proof (cases "parse_duration item")
  case (Inl x)
  with assms show ?thesis by (simp add: process_call_record_def)
next
  case (Inr d)
  note d = this
  show ?thesis
  proof (cases "field_lower item ''Answered''")
    case (Inl x)
    with assms d show ?thesis by (auto simp: process_call_record_def Let_def)
  next
    case (Inr a)
    note a = this
    show ?thesis
    proof (cases "field_lower item ''Call outcome reason''")
      case (Inl x)
      with assms d a show ?thesis by (auto simp: process_call_record_def Let_def)
    next
      case (Inr r)
      define m2 where "m2 = (if a = ''true''
                               then (m\<lparr>total_duration := total_duration m + d,
                      total_calls := total_calls m + 1\<rparr>)\<lparr>connected_calls := connected_calls m + 1\<rparr>
                               else if r = ''voicemail''
                               then (m\<lparr>total_duration := total_duration m + d,
                      total_calls := total_calls m + 1\<rparr>)\<lparr>voicemail_calls := voicemail_calls m + 1\<rparr>
                               else (m\<lparr>total_duration := total_duration m + d,
                      total_calls := total_calls m + 1\<rparr>))"
      obtain m3 e3 where r3: "add_response_time f m2 item = (m3, e3)" by fastforce
      obtain m4 e4 where r4: "update_department_calls (count_outcome m3 item) item = (m4, e4)" by fastforce
      obtain m5 e5 where r5: "update_user_calls m4 item = (m5, e5)" by fastforce
      have k3: "total_duration m3 = total_duration m2" "total_calls m3 = total_calls m2"
        "connected_calls m3 = connected_calls m2" "voicemail_calls m3 = voicemail_calls m2"
        using add_response_time_keeps[OF r3] by auto
      have k4: "total_duration m4 = total_duration m3" "total_calls m4 = total_calls m3"
        "connected_calls m4 = connected_calls m3" "voicemail_calls m4 = voicemail_calls m3"
        using update_department_calls_keeps[OF r4] count_outcome_keeps[of m3 item] by auto
      have k5: "total_duration m5 = total_duration m4" "total_calls m5 = total_calls m4"
        "connected_calls m5 = connected_calls m4" "voicemail_calls m5 = voicemail_calls m4"
        using update_user_calls_keeps[OF r5] by auto
      have "m' = m3 \<or> m' = m4 \<or> m' = m5"
        using assms d a Inr r3 r4 r5
        by (auto simp: process_call_record_def Let_def m2_def split: option.splits if_splits)
      moreover have "total_duration m2 = total_duration m + d" "total_calls m2 = total_calls m + 1"
        "connected_calls m2 = connected_calls m + (if a = ''true'' then 1 else 0)"
        "voicemail_calls m2 = voicemail_calls m + (if a \<noteq> ''true'' \<and> r = ''voicemail'' then 1 else 0)"
        by (auto simp: m2_def)
      ultimately show ?thesis using d a Inr k3 k4 k5 by auto
    qed
  qed
qed







text \<open>When no exception ends the loop, every row is counted once.\<close>

lemma process_loop_counts_rows:
  "process_loop f m rows = (m', None) \<Longrightarrow> total_calls m' = total_calls m + int (length rows)"
proof (induction rows arbitrary: m)
  case Nil
  then show ?case by simp
next
  case (Cons item items)
  obtain m1 e1 where s: "process_call_record f m item = (m1, e1)" by fastforce
  with Cons.prems have e1: "e1 = None" and rest: "process_loop f m1 items = (m', None)"
    by (auto split: option.splits)
  from process_call_record_counters[OF s] e1 have "total_calls m1 = total_calls m + 1"
    by (auto split: sum.splits)
  with Cons.IH[OF rest] show ?case by simp
qed

text \<open>
  C1, evaluated on the code: of the two rows \<^verbatim>\<open>{'Duration': U+00B2}\<close> and
  \<^verbatim>\<open>{}\<close> none is counted. The \<^verbatim>\<open>ValueError\<close> of line 154 is raised before
  line 156 counts the first row, it is not the \<^verbatim>\<open>TypeError\<close> that line 190 catches,
  and it ends the loop before the second row.
\<close>

theorem total_calls_misses_rows:
  "process_all_cdr_records fromiso init_metrics [[''Duration'' \<mapsto> PStr [CHR 0xB2]], Map.empty]
     = (init_metrics, Some ValueError)
   \<and> total_calls init_metrics = 0"
proof -
  have "parse_duration [''Duration'' \<mapsto> PStr [CHR 0xB2]] = Inl ValueError"
    by code_simp
  then show ?thesis
    by (simp add: process_all_cdr_records_def process_call_record_def init_metrics_def)
qed

text \<open>
  A row with an aware answer time and a naive start time: the subtraction of line 173
  raises \<^verbatim>\<open>TypeError\<close> after lines 155 and 156 have counted the row and before lines
  179, 182 and 183 are reached; line 190 catches it.
\<close>

lemma mixed_timestamps_raise:
  assumes "parse_duration item = Inr d"
    and "field_lower item ''Answered'' = Inr a"
    and "field_lower item ''Call outcome reason'' = Inr r"
    and "a \<noteq> ''true''" and "r \<noteq> ''voicemail''"
    and "item ''Answer time'' = Some (PStr ta)" and "ta \<noteq> []"
    and "item ''Start time'' = Some (PStr ts)" and "ts \<noteq> []"
    and "fromiso ta = Some (Aware x)" and "fromiso ts = Some (Naive y)"
  shows "process_all_cdr_records fromiso m [item] =
           (m\<lparr>total_duration := total_duration m + d, total_calls := total_calls m + 1\<rparr>, None)"
  using assms
  by (simp add: process_all_cdr_records_def process_call_record_def add_response_time_def
      dict_get_def Let_def)

text \<open>
  C4, evaluated on the code: for the one row with duration 7, answer time
  \<^verbatim>\<open>2024-01-01T10:00:05+00:00\<close> and start time \<^verbatim>\<open>2024-01-01T10:00:00\<close>, which
  \<^verbatim>\<open>fromisoformat\<close> parses as an aware and a naive \<^verbatim>\<open>datetime\<close>, the global
  totals are 7 seconds and 1 call while the department and user buckets sum to 0.
\<close>

theorem bucket_totals_diverge:
  assumes "fromiso ''2024-01-01T10:00:05+00:00'' = Some (Aware x)"
    and "fromiso ''2024-01-01T10:00:00'' = Some (Naive y)"
  shows "let m = fst (process_all_cdr_records fromiso init_metrics [[''Duration'' \<mapsto> PStr ''7'', ''Answer time'' \<mapsto> PStr ''2024-01-01T10:00:05+00:00'', ''Start time'' \<mapsto> PStr ''2024-01-01T10:00:00'']])
         in total_duration m = 7 \<and> total_calls m = 1 \<and>
            sum_buckets b_total_duration (department_calls m) = 0 \<and>
            sum_buckets b_total_calls (department_calls m) = 0 \<and>
            sum_buckets b_total_duration (user_calls m) = 0 \<and>
            sum_buckets b_total_calls (user_calls m) = 0"
proof -
  let ?row = "[''Duration'' \<mapsto> PStr ''7'', ''Answer time'' \<mapsto> PStr ''2024-01-01T10:00:05+00:00'', ''Start time'' \<mapsto> PStr ''2024-01-01T10:00:00'']"
  have pd: "parse_duration ?row = Inr 7" by code_simp
  have fa: "field_lower ?row ''Answered'' = Inr []" by code_simp
  have fr: "field_lower ?row ''Call outcome reason'' = Inr []" by code_simp
  have "process_all_cdr_records fromiso init_metrics [?row] =
      (init_metrics\<lparr>total_duration := total_duration init_metrics + 7,
                     total_calls := total_calls init_metrics + 1\<rparr>, None)"
    using mixed_timestamps_raise[where item = ?row and fromiso = fromiso and m = init_metrics
        and ta = "''2024-01-01T10:00:05+00:00''" and ts = "''2024-01-01T10:00:00''", OF pd fa fr]
      assms
    by simp
  then show ?thesis
    by (simp add: init_metrics_def sum_buckets_def)
qed

text \<open>The same run with a parser that knows these two strings only.\<close>

theorem bucket_totals_diverge_witness:
  "let m = fst (process_all_cdr_records (\<lambda>s. if s = ''2024-01-01T10:00:05+00:00'' then Some (Aware 5000000) else if s = ''2024-01-01T10:00:00'' then Some (Naive 0) else None) init_metrics [[''Duration'' \<mapsto> PStr ''7'', ''Answer time'' \<mapsto> PStr ''2024-01-01T10:00:05+00:00'', ''Start time'' \<mapsto> PStr ''2024-01-01T10:00:00'']])
   in total_duration m = 7 \<and> sum_buckets b_total_duration (department_calls m) = 0"
  using bucket_totals_diverge[of "(\<lambda>s. if s = ''2024-01-01T10:00:05+00:00'' then Some (Aware 5000000) else if s = ''2024-01-01T10:00:00'' then Some (Naive 0) else None)" 5000000 0]
  by (simp add: Let_def)

text \<open>
  C9, evaluated on the code: for the one row with call outcome \<^verbatim>\<open>Success\<close>, answer
  time \<^verbatim>\<open>2024-01-01T10:00:05+00:00\<close> and start time \<^verbatim>\<open>2024-01-01T10:00:00\<close>,
  \<open>total_calls\<close> is 1 and the outcome counts sum to 0: line 173 raises before line 179
  counts the outcome.
\<close>

theorem outcome_counts_diverge:
  assumes "fromiso ''2024-01-01T10:00:05+00:00'' = Some (Aware x)"
    and "fromiso ''2024-01-01T10:00:00'' = Some (Naive y)"
  shows "let m = fst (process_all_cdr_records fromiso init_metrics [[''Call outcome'' \<mapsto> PStr ''Success'', ''Answer time'' \<mapsto> PStr ''2024-01-01T10:00:05+00:00'', ''Start time'' \<mapsto> PStr ''2024-01-01T10:00:00'']])
         in total_calls m = 1 \<and> sum_outcomes (call_outcomes m) = 0"
proof -
  let ?row = "[''Call outcome'' \<mapsto> PStr ''Success'', ''Answer time'' \<mapsto> PStr ''2024-01-01T10:00:05+00:00'', ''Start time'' \<mapsto> PStr ''2024-01-01T10:00:00'']"
  have pd: "parse_duration ?row = Inr 0" by code_simp
  have fa: "field_lower ?row ''Answered'' = Inr []" by code_simp
  have fr: "field_lower ?row ''Call outcome reason'' = Inr []" by code_simp
  have "process_all_cdr_records fromiso init_metrics [?row] =
      (init_metrics\<lparr>total_duration := total_duration init_metrics + 0,
                     total_calls := total_calls init_metrics + 1\<rparr>, None)"
    using mixed_timestamps_raise[where item = ?row and fromiso = fromiso and m = init_metrics
        and ta = "''2024-01-01T10:00:05+00:00''" and ts = "''2024-01-01T10:00:00''", OF pd fa fr]
      assms
    by simp
  then show ?thesis
    by (simp add: init_metrics_def sum_outcomes_def)
qed

text \<open>That run with a parser that knows these two strings only.\<close>

theorem outcome_counts_diverge_witness:
  "let m = fst (process_all_cdr_records (\<lambda>s. if s = ''2024-01-01T10:00:05+00:00'' then Some (Aware 5000000) else if s = ''2024-01-01T10:00:00'' then Some (Naive 0) else None) init_metrics [[''Call outcome'' \<mapsto> PStr ''Success'', ''Answer time'' \<mapsto> PStr ''2024-01-01T10:00:05+00:00'', ''Start time'' \<mapsto> PStr ''2024-01-01T10:00:00'']])
   in total_calls m = 1 \<and> sum_outcomes (call_outcomes m) = 0"
  using outcome_counts_diverge[of "(\<lambda>s. if s = ''2024-01-01T10:00:05+00:00'' then Some (Aware 5000000) else if s = ''2024-01-01T10:00:00'' then Some (Naive 0) else None)" 5000000 0]
  by (simp add: Let_def)

section \<open>Polling\<close>

lemma quiet_paced_from:
  "list_all (\<lambda>e. \<not> is_status e \<and> \<not> is_sleep e) es \<Longrightarrow> paced_from p2 p1 t es"
  by (induction es arbitrary: p2 p1 t) auto

lemma poll_loop_paced:
  "poll_loop w r k el st = (res, evs) \<Longrightarrow>
   list_all (\<lambda>e. \<not> is_status e \<and> \<not> is_sleep e) rest \<Longrightarrow>
   paced_from p2 p1 False (evs @ rest)"
proof (induction w r k el st arbitrary: res evs p2 p1 rule: poll_loop.induct)
  case (1 w report_id k elapsed status)
  show ?case
  proof (cases "status = ''done''")
    case True
    with "1.prems" show ?thesis by (simp add: quiet_paced_from)
  next
    case nd: False
    show ?thesis
    proof (cases "timeout < elapsed")
      case True
      with nd "1.prems" show ?thesis by (auto simp: quiet_paced_from)
    next
      case nt: False
      obtain lat rep where rs: "report_status w k = (lat, rep)" by fastforce
      show ?thesis
      proof (cases rep)
        case (Raises x)
        with nd nt rs "1.prems" show ?thesis by (auto simp: quiet_paced_from)
      next
        case (Returns status')
        obtain r' evs' where rec: "poll_loop w report_id (Suc k) (elapsed + 30 + lat) status' = (r', evs')"
          by fastforce
        have evs: "evs = ReadClock # Sleep 30 # Status report_id # evs'"
          using nd nt rs Returns rec "1.prems"(1) by simp
        have "paced_from (Some (Sleep 30)) (Some (Status report_id)) False (evs' @ rest)"
          using "1.IH"[OF nd nt rs[symmetric] Returns rec "1.prems"(2)] .
        then show ?thesis by (simp add: evs)
      qed
    qed
  qed
qed


declare poll_loop.simps [simp del]

lemma create_poll_paced:
  assumes "poll_loop w rid 0 0 ''unknown'' = (res, evs)"
    and "list_all (\<lambda>e. \<not> is_status e \<and> \<not> is_sleep e) rest"
  shows "paced (CreateDays n # ReadClock # evs @ rest)"
    and "paced (CreateRange a b # ReadClock # evs @ rest)"
  using poll_loop_paced[OF assms, of "Some (CreateDays n)" "Some ReadClock"]
    poll_loop_paced[OF assms, of "Some (CreateRange a b)" "Some ReadClock"]
  by (simp_all add: paced_def)

text \<open>
  C10: in every run of \<^verbatim>\<open>fetch_cdr_data\<close> each status query, the first one included,
  comes directly after a sleep of 30 units, which comes directly after the reading of
  the clock for the timeout check, and no status query follows the timeout branch. The
  loop is a total function: it ends for every sequence of answers.
\<close>

theorem poller_sleeps_before_each_status:
  "paced (snd (fetch_cdr_data reader w cfg num_days))"
proof (cases "webex_ok w")
  case False
  then show ?thesis by (simp add: fetch_cdr_data_def paced_def)
next
  case ok: True
  show ?thesis
  proof (cases "cdr_report w")
    case (Raises x)
    with ok show ?thesis
      by (auto simp: fetch_cdr_data_def fetch_except_def paced_def Let_def
          split: option.splits raised.splits)
  next
    case (Returns rid)
    obtain res evs where pl: "poll_loop w rid 0 0 ''unknown'' = (res, evs)" by fastforce
    have p0: "paced (CreateDays n # ReadClock # evs)"
      "paced (CreateRange a b # ReadClock # evs)" for n a b
      using create_poll_paced[OF pl, of "[]"] by simp_all
    have p1: "paced (CreateDays n # ReadClock # evs @ [LogFetchError])"
      "paced (CreateRange a b # ReadClock # evs @ [LogFetchError])" for n a b
      using create_poll_paced[OF pl, of "[LogFetchError]"] by simp_all
    have p2: "paced (CreateDays n # ReadClock # evs @ [GetLines r])"
      "paced (CreateRange a b # ReadClock # evs @ [GetLines r])" for n a b r
      using create_poll_paced[OF pl, of "[GetLines r]"] by simp_all
    have p3: "paced (CreateDays n # ReadClock # evs @ [GetLines r, LogFetchError])"
      "paced (CreateRange a b # ReadClock # evs @ [GetLines r, LogFetchError])" for n a b r
      using create_poll_paced[OF pl, of "[GetLines r, LogFetchError]"] by simp_all
    have p4: "paced (CreateDays n # ReadClock # evs @ [GetLines r, LogNoData])"
      "paced (CreateRange a b # ReadClock # evs @ [GetLines r, LogNoData])" for n a b r
      using create_poll_paced[OF pl, of "[GetLines r, LogNoData]"] by simp_all
    have short: "paced [CreateDays n]" for n
      by (simp add: paced_def)
    show ?thesis using ok Returns pl
      by (auto simp: fetch_cdr_data_def fetch_except_def Let_def p0 p1 p2 p3 p4 short
          split: option.splits poll_end.splits reply.splits raised.splits)
  qed
qed

text \<open>
  A report that is done at its first status query: the poller still sleeps 30 units
  before that query.
\<close>

theorem poller_sleeps_before_each_status_witness:
  "snd (fetch_cdr_data (\<lambda>ls. Returns [[''Duration'' \<mapsto> PStr ''5'']]) \<lparr>webex_ok = True, cdr_report = Returns (Some ''R1''), report_status = (\<lambda>k. (0, Returns ''done'')), get_report_lines = Returns [''Duration'', ''5''], list_reports = (\<lambda>k. Returns []), inputs = (\<lambda>k. Returns []), delete_status = (\<lambda>r. Returns 204)\<rparr> \<lparr>NUMBER_OF_DAYS_CDR_REPORT = Some 7, START_DATE = None, END_DATE = None\<rparr> (Some 7))
     = [CreateDays 7, ReadClock, ReadClock, Sleep 30, Status (Some ''R1''), GetLines (Some ''R1'')]
   \<and> paced [CreateDays 7, ReadClock, ReadClock, Sleep 30, Status (Some ''R1''), GetLines (Some ''R1'')]"
proof -
  have tr: "snd (fetch_cdr_data (\<lambda>ls. Returns [[''Duration'' \<mapsto> PStr ''5'']]) \<lparr>webex_ok = True, cdr_report = Returns (Some ''R1''), report_status = (\<lambda>k. (0, Returns ''done'')), get_report_lines = Returns [''Duration'', ''5''], list_reports = (\<lambda>k. Returns []), inputs = (\<lambda>k. Returns []), delete_status = (\<lambda>r. Returns 204)\<rparr> \<lparr>NUMBER_OF_DAYS_CDR_REPORT = Some 7, START_DATE = None, END_DATE = None\<rparr> (Some 7))
     = [CreateDays 7, ReadClock, ReadClock, Sleep 30, Status (Some ''R1''), GetLines (Some ''R1'')]"
    by code_simp
  from poller_sleeps_before_each_status[of "(\<lambda>ls. Returns [[''Duration'' \<mapsto> PStr ''5'']])" "\<lparr>webex_ok = True, cdr_report = Returns (Some ''R1''), report_status = (\<lambda>k. (0, Returns ''done'')), get_report_lines = Returns [''Duration'', ''5''], list_reports = (\<lambda>k. Returns []), inputs = (\<lambda>k. Returns []), delete_status = (\<lambda>r. Returns 204)\<rparr>" "\<lparr>NUMBER_OF_DAYS_CDR_REPORT = Some 7, START_DATE = None, END_DATE = None\<rparr>" "Some 7"] tr show ?thesis
    by simp
qed

section \<open>Results of the poller\<close>

text \<open>
  C7, as the code has it: when polling reaches the done status and the gateway returns
  no report lines, the poller returns \<^verbatim>\<open>None\<close>. It returns the same \<^verbatim>\<open>None\<close>
  when the creation by day count gives no id, when the poll loop ends by the timeout,
  and when the creation request raises an exception whose \<^verbatim>\<open>response\<close> is absent or
  a response; when that attribute is \<^verbatim>\<open>None\<close> the handler raises
  \<^verbatim>\<open>AttributeError\<close> instead. The one result that stands apart is the pair of rows
  and report id, and it comes only from report lines that are not empty.
\<close>

theorem no_data_is_none_like_errors:
  "(cdr_report w = Returns rid \<and> fst (poll_loop w rid 0 0 ''unknown'') = PollDone \<and>
      get_report_lines w = Returns [] \<longrightarrow>
      fst (fetch_cdr_data reader w cfg num_days) = Inr None) \<and>
   (cdr_report w = Returns rid \<and> \<not> opt_truthy rid \<and> num_days = Some n \<and> n \<noteq> 0 \<longrightarrow>
      fst (fetch_cdr_data reader w cfg num_days) = Inr None) \<and>
   (cdr_report w = Returns rid \<and> fst (poll_loop w rid 0 0 ''unknown'') = PollTimeout \<longrightarrow>
      fst (fetch_cdr_data reader w cfg num_days) = Inr None) \<and>
   (cdr_report w = Raises x \<and> x \<noteq> NoneResponse \<longrightarrow>
      fst (fetch_cdr_data reader w cfg num_days) = Inr None) \<and>
   (webex_ok w \<and> cdr_report w = Raises NoneResponse \<longrightarrow>
      fst (fetch_cdr_data reader w cfg num_days) = Inl AttributeError) \<and>
   (fst (fetch_cdr_data reader w cfg num_days) = Inr (Some (rows, rid)) \<longrightarrow>
      cdr_report w = Returns rid \<and>
      (\<exists>report_lines. get_report_lines w = Returns report_lines \<and> report_lines \<noteq> [] \<and>
         reader report_lines = Returns rows))"
proof -
  obtain res evs where
    pl: "poll_loop w (case cdr_report w of Returns r \<Rightarrow> r | Raises x \<Rightarrow> None) 0 0 ''unknown''
           = (res, evs)"
    by fastforce
  have 1: "cdr_report w = Returns rid \<and> fst (poll_loop w rid 0 0 ''unknown'') = PollDone \<and>
      get_report_lines w = Returns [] \<longrightarrow>
      fst (fetch_cdr_data reader w cfg num_days) = Inr None"
    using pl by (auto simp: fetch_cdr_data_def Let_def split: option.splits)
  have 2: "cdr_report w = Returns rid \<and> \<not> opt_truthy rid \<and> num_days = Some n \<and> n \<noteq> 0 \<longrightarrow>
      fst (fetch_cdr_data reader w cfg num_days) = Inr None"
    by (auto simp: fetch_cdr_data_def Let_def)
  have 3: "cdr_report w = Returns rid \<and> fst (poll_loop w rid 0 0 ''unknown'') = PollTimeout \<longrightarrow>
      fst (fetch_cdr_data reader w cfg num_days) = Inr None"
    using pl by (auto simp: fetch_cdr_data_def Let_def split: option.splits)
  have 4: "cdr_report w = Raises x \<and> x \<noteq> NoneResponse \<longrightarrow>
      fst (fetch_cdr_data reader w cfg num_days) = Inr None"
    by (cases x) (auto simp: fetch_cdr_data_def fetch_except_def Let_def)
  have 5: "webex_ok w \<and> cdr_report w = Raises NoneResponse \<longrightarrow>
      fst (fetch_cdr_data reader w cfg num_days) = Inl AttributeError"
    by (auto simp: fetch_cdr_data_def fetch_except_def Let_def)
  have 6: "fst (fetch_cdr_data reader w cfg num_days) = Inr (Some (rows, rid)) \<longrightarrow>
      cdr_report w = Returns rid \<and>
      (\<exists>report_lines. get_report_lines w = Returns report_lines \<and> report_lines \<noteq> [] \<and>
         reader report_lines = Returns rows)"
    using pl
    by (cases "cdr_report w"; cases res; cases "get_report_lines w")
       (auto simp: fetch_cdr_data_def fetch_except_def Let_def
          split: option.splits reply.splits if_splits raised.splits)
  from 1 2 3 4 5 6 show ?thesis by blast
qed

text \<open>A report that is done at the first status query and has no lines.\<close>

theorem no_data_is_none_like_errors_witness:
  "fst (fetch_cdr_data (\<lambda>ls. Returns [[''Duration'' \<mapsto> PStr ''5'']]) \<lparr>webex_ok = True, cdr_report = Returns (Some ''R1''), report_status = (\<lambda>k. (0, Returns ''done'')), get_report_lines = Returns [], list_reports = (\<lambda>k. Returns []), inputs = (\<lambda>k. Returns []), delete_status = (\<lambda>r. Returns 204)\<rparr> \<lparr>NUMBER_OF_DAYS_CDR_REPORT = Some 7, START_DATE = None, END_DATE = None\<rparr> (Some 7)) = Inr None"
proof -
  have pl: "fst (poll_loop \<lparr>webex_ok = True, cdr_report = Returns (Some ''R1''), report_status = (\<lambda>k. (0, Returns ''done'')), get_report_lines = Returns [], list_reports = (\<lambda>k. Returns []), inputs = (\<lambda>k. Returns []), delete_status = (\<lambda>r. Returns 204)\<rparr> (Some ''R1'') 0 0 ''unknown'') = PollDone"
    by code_simp
  with no_data_is_none_like_errors[of "\<lparr>webex_ok = True, cdr_report = Returns (Some ''R1''), report_status = (\<lambda>k. (0, Returns ''done'')), get_report_lines = Returns [], list_reports = (\<lambda>k. Returns []), inputs = (\<lambda>k. Returns []), delete_status = (\<lambda>r. Returns 204)\<rparr>" "Some ''R1''" "(\<lambda>ls. Returns [[''Duration'' \<mapsto> PStr ''5'']])" "\<lparr>NUMBER_OF_DAYS_CDR_REPORT = Some 7, START_DATE = None, END_DATE = None\<rparr>" "Some 7"]
  show ?thesis by simp
qed

text \<open>
  C7 as stated fails: four runs for 7 days, one with no report lines, one whose creation
  returns no id, one whose line retrieval raises and one whose report never gets done,
  all return \<^verbatim>\<open>None\<close>.
\<close>

theorem no_data_not_distinct_from_errors:
  "fst (fetch_cdr_data (\<lambda>ls. Returns [[''Duration'' \<mapsto> PStr ''5'']]) \<lparr>webex_ok = True, cdr_report = Returns (Some ''R1''), report_status = (\<lambda>k. (0, Returns ''done'')), get_report_lines = Returns [], list_reports = (\<lambda>k. Returns []), inputs = (\<lambda>k. Returns []), delete_status = (\<lambda>r. Returns 204)\<rparr> \<lparr>NUMBER_OF_DAYS_CDR_REPORT = Some 7, START_DATE = None, END_DATE = None\<rparr> (Some 7)) = Inr None
   \<and> fst (fetch_cdr_data (\<lambda>ls. Returns [[''Duration'' \<mapsto> PStr ''5'']]) \<lparr>webex_ok = True, cdr_report = Returns None, report_status = (\<lambda>k. (0, Returns ''done'')), get_report_lines = Returns [''Duration'', ''5''], list_reports = (\<lambda>k. Returns []), inputs = (\<lambda>k. Returns []), delete_status = (\<lambda>r. Returns 204)\<rparr> \<lparr>NUMBER_OF_DAYS_CDR_REPORT = Some 7, START_DATE = None, END_DATE = None\<rparr> (Some 7)) = Inr None
   \<and> fst (fetch_cdr_data (\<lambda>ls. Returns [[''Duration'' \<mapsto> PStr ''5'']]) \<lparr>webex_ok = True, cdr_report = Returns (Some ''R1''), report_status = (\<lambda>k. (0, Returns ''done'')), get_report_lines = Raises HttpResponse, list_reports = (\<lambda>k. Returns []), inputs = (\<lambda>k. Returns []), delete_status = (\<lambda>r. Returns 204)\<rparr> \<lparr>NUMBER_OF_DAYS_CDR_REPORT = Some 7, START_DATE = None, END_DATE = None\<rparr> (Some 7)) = Inr None
   \<and> fst (fetch_cdr_data (\<lambda>ls. Returns [[''Duration'' \<mapsto> PStr ''5'']]) \<lparr>webex_ok = True, cdr_report = Returns (Some ''R1''), report_status = (\<lambda>k. (0, Returns ''pending'')), get_report_lines = Returns [''Duration'', ''5''], list_reports = (\<lambda>k. Returns []), inputs = (\<lambda>k. Returns []), delete_status = (\<lambda>r. Returns 204)\<rparr> \<lparr>NUMBER_OF_DAYS_CDR_REPORT = Some 7, START_DATE = None, END_DATE = None\<rparr> (Some 7)) = Inr None"
proof -
  have done1: "poll_loop \<lparr>webex_ok = True, cdr_report = Returns (Some ''R1''), report_status = (\<lambda>k. (0, Returns ''done'')), get_report_lines = Returns [], list_reports = (\<lambda>k. Returns []), inputs = (\<lambda>k. Returns []), delete_status = (\<lambda>r. Returns 204)\<rparr> (Some ''R1'') 0 0 ''unknown''
                 = (PollDone, [ReadClock, Sleep 30, Status (Some ''R1'')])"
    by code_simp
  have done2: "poll_loop \<lparr>webex_ok = True, cdr_report = Returns (Some ''R1''), report_status = (\<lambda>k. (0, Returns ''done'')), get_report_lines = Raises HttpResponse, list_reports = (\<lambda>k. Returns []), inputs = (\<lambda>k. Returns []), delete_status = (\<lambda>r. Returns 204)\<rparr> (Some ''R1'') 0 0 ''unknown''
                 = (PollDone, [ReadClock, Sleep 30, Status (Some ''R1'')])"
    by code_simp
  have late: "fst (poll_loop \<lparr>webex_ok = True, cdr_report = Returns (Some ''R1''), report_status = (\<lambda>k. (0, Returns ''pending'')), get_report_lines = Returns [''Duration'', ''5''], list_reports = (\<lambda>k. Returns []), inputs = (\<lambda>k. Returns []), delete_status = (\<lambda>r. Returns 204)\<rparr> (Some ''R1'') 0 0 ''unknown'') = PollTimeout"
    by code_simp
  have 1: "fst (fetch_cdr_data (\<lambda>ls. Returns [[''Duration'' \<mapsto> PStr ''5'']]) \<lparr>webex_ok = True, cdr_report = Returns (Some ''R1''), report_status = (\<lambda>k. (0, Returns ''done'')), get_report_lines = Returns [], list_reports = (\<lambda>k. Returns []), inputs = (\<lambda>k. Returns []), delete_status = (\<lambda>r. Returns 204)\<rparr> \<lparr>NUMBER_OF_DAYS_CDR_REPORT = Some 7, START_DATE = None, END_DATE = None\<rparr> (Some 7)) = Inr None"
    by (simp add: fetch_cdr_data_def opt_truthy_def done1)
  have 2: "fst (fetch_cdr_data (\<lambda>ls. Returns [[''Duration'' \<mapsto> PStr ''5'']]) \<lparr>webex_ok = True, cdr_report = Returns None, report_status = (\<lambda>k. (0, Returns ''done'')), get_report_lines = Returns [''Duration'', ''5''], list_reports = (\<lambda>k. Returns []), inputs = (\<lambda>k. Returns []), delete_status = (\<lambda>r. Returns 204)\<rparr> \<lparr>NUMBER_OF_DAYS_CDR_REPORT = Some 7, START_DATE = None, END_DATE = None\<rparr> (Some 7)) = Inr None"
    by (simp add: fetch_cdr_data_def opt_truthy_def)
  have 3: "fst (fetch_cdr_data (\<lambda>ls. Returns [[''Duration'' \<mapsto> PStr ''5'']]) \<lparr>webex_ok = True, cdr_report = Returns (Some ''R1''), report_status = (\<lambda>k. (0, Returns ''done'')), get_report_lines = Raises HttpResponse, list_reports = (\<lambda>k. Returns []), inputs = (\<lambda>k. Returns []), delete_status = (\<lambda>r. Returns 204)\<rparr> \<lparr>NUMBER_OF_DAYS_CDR_REPORT = Some 7, START_DATE = None, END_DATE = None\<rparr> (Some 7)) = Inr None"
    by (simp add: fetch_cdr_data_def fetch_except_def opt_truthy_def done2)
  have 4: "fst (fetch_cdr_data (\<lambda>ls. Returns [[''Duration'' \<mapsto> PStr ''5'']]) \<lparr>webex_ok = True, cdr_report = Returns (Some ''R1''), report_status = (\<lambda>k. (0, Returns ''pending'')), get_report_lines = Returns [''Duration'', ''5''], list_reports = (\<lambda>k. Returns []), inputs = (\<lambda>k. Returns []), delete_status = (\<lambda>r. Returns 204)\<rparr> \<lparr>NUMBER_OF_DAYS_CDR_REPORT = Some 7, START_DATE = None, END_DATE = None\<rparr> (Some 7)) = Inr None"
  proof -
    obtain evs where late': "poll_loop \<lparr>webex_ok = True, cdr_report = Returns (Some ''R1''), report_status = (\<lambda>k. (0, Returns ''pending'')), get_report_lines = Returns [''Duration'', ''5''], list_reports = (\<lambda>k. Returns []), inputs = (\<lambda>k. Returns []), delete_status = (\<lambda>r. Returns 204)\<rparr> (Some ''R1'') 0 0 ''unknown'' = (PollTimeout, evs)"
      using late by (cases "poll_loop \<lparr>webex_ok = True, cdr_report = Returns (Some ''R1''), report_status = (\<lambda>k. (0, Returns ''pending'')), get_report_lines = Returns [''Duration'', ''5''], list_reports = (\<lambda>k. Returns []), inputs = (\<lambda>k. Returns []), delete_status = (\<lambda>r. Returns 204)\<rparr> (Some ''R1'') 0 0 ''unknown''") auto
    show ?thesis
      by (simp add: fetch_cdr_data_def opt_truthy_def late')
  qed
  from 1 2 3 4 show ?thesis by blast
qed




section \<open>The run and its exceptions\<close>

lemma py_int_error: "py_int s = Inl e \<Longrightarrow> e = ValueError"
  by (auto simp: py_int_def Let_def split: if_splits option.splits)

lemma parse_duration_error: "parse_duration item = Inl e \<Longrightarrow> is_Exception e"
  by (auto simp: parse_duration_def is_Exception_def split: pyval.splits if_splits
      dest: py_int_error)

lemma field_lower_error: "field_lower item k = Inl e \<Longrightarrow> is_Exception e"
  by (auto simp: field_lower_def is_Exception_def split: pyval.splits)

lemma datetime_sub_error: "datetime_sub a b = Inl e \<Longrightarrow> is_Exception e"
  by (cases a; cases b) (auto simp: is_Exception_def)

lemma add_response_time_error:
  "add_response_time f m item = (m', Some e) \<Longrightarrow> is_Exception e"
  by (auto simp: add_response_time_def Let_def
      split: pyval.splits if_splits option.splits sum.splits dest: datetime_sub_error)

lemma update_bucket_error: "update_bucket b item = (b', Some e) \<Longrightarrow> is_Exception e"
  by (auto simp: update_bucket_def Let_def split: sum.splits if_splits
      dest: field_lower_error parse_duration_error)

lemma update_keyed_error: "update_keyed k item d = (d', Some e) \<Longrightarrow> is_Exception e"
  by (auto simp: update_keyed_def Let_def split: prod.splits dest: update_bucket_error)

lemma update_department_calls_error:
  "update_department_calls m item = (m', Some e) \<Longrightarrow> is_Exception e"
  by (auto simp: update_department_calls_def Let_def split: prod.splits dest: update_keyed_error)

lemma update_user_calls_error:
  "update_user_calls m item = (m', Some e) \<Longrightarrow> is_Exception e"
  by (auto simp: update_user_calls_def Let_def split: prod.splits dest: update_keyed_error)

lemma process_call_record_error:
  "process_call_record f m item = (m', Some e) \<Longrightarrow> is_Exception e"
  by (auto simp: process_call_record_def Let_def split: sum.splits prod.splits option.splits
      dest: parse_duration_error field_lower_error add_response_time_error
        update_department_calls_error update_user_calls_error)

lemma process_loop_error:
  "process_loop f m rows = (m', Some e) \<Longrightarrow> is_Exception e"
  by (induction rows arbitrary: m)
     (auto split: prod.splits option.splits dest: process_call_record_error)

lemma process_all_error:
  "process_all_cdr_records f m rows = (m', Some e) \<Longrightarrow> is_Exception e"
  by (auto simp: process_all_cdr_records_def split: prod.splits option.splits if_splits
      dest: process_loop_error)

lemma fetch_except_error: "fetch_except x evs = (Inl e, evs') \<Longrightarrow> is_Exception e"
  by (cases x) (auto simp: fetch_except_def is_Exception_def)

lemma fetch_cdr_data_error:
  "fetch_cdr_data reader w cfg num_days = (Inl e, evs) \<Longrightarrow> is_Exception e"
proof -
  obtain res pevs where
    pl: "poll_loop w (case cdr_report w of Returns r \<Rightarrow> r | Raises x \<Rightarrow> None) 0 0 ''unknown''
           = (res, pevs)"
    by fastforce
  assume "fetch_cdr_data reader w cfg num_days = (Inl e, evs)"
  with pl show ?thesis
    by (cases "cdr_report w"; cases res; cases "get_report_lines w")
       (auto simp: fetch_cdr_data_def Let_def
          split: option.splits reply.splits if_splits dest: fetch_except_error)
qed

lemma fetch_cdr_data_based_on_config_error:
  "fetch_cdr_data_based_on_config reader w cfg = (Inl e, evs) \<Longrightarrow> is_Exception e"
  by (auto simp: fetch_cdr_data_based_on_config_def split: option.splits if_splits
      dest: fetch_cdr_data_error)

lemma delete_report_error: "delete_report w r = (Inl e, evs) \<Longrightarrow> is_Exception e"
  by (auto simp: delete_report_def is_Exception_def split: reply.splits)

lemma delete_each_error: "delete_each w rs = (Some e, evs) \<Longrightarrow> is_Exception e"
  by (induction rs arbitrary: evs)
     (auto split: prod.splits sum.splits dest: delete_report_error)

lemma remediate_error:
  "remediate w ex opt = (Some e, evs) \<Longrightarrow>
     is_Exception e \<or> (e = SystemExit 1 \<and> opt = ''3'')"
  by (auto simp: remediate_def is_Exception_def split: if_splits reply.splits prod.splits sum.splits
      dest: delete_report_error delete_each_error)

lemma handle_existing_reports_error:
  "handle_existing_reports w = (Inl e, evs) \<Longrightarrow>
     is_Exception e \<or>
     (e = SystemExit 1 \<and> webex_ok w \<and>
      (\<exists>reports answer. list_reports w 0 = Returns reports \<and> length reports = 50 \<and>
         inputs w 0 = Returns answer \<and> str_strip answer = ''3''))"
  by (auto simp: handle_existing_reports_def get_all_reports_def is_Exception_def
      split: if_splits reply.splits prod.splits option.splits
      dest!: remediate_error)

text \<open>
  C5, as the code has it: every exception of class \<^verbatim>\<open>Exception\<close> raised inside
  \<^verbatim>\<open>run_report\<close> is caught at line 265 and the run returns. The one exception that
  reaches the caller is the \<^verbatim>\<open>SystemExit(1)\<close> of \<^verbatim>\<open>sys.exit(1)\<close>, raised exactly
  when 50 reports are stored and the operator answers 3: aborting raises.
\<close>

theorem only_exit_leaves_run:
  "(fst (run_report fromiso reader w cfg m) = Some e \<longrightarrow>
      e = SystemExit 1 \<and> webex_ok w \<and>
      (\<exists>reports answer. list_reports w 0 = Returns reports \<and> length reports = 50 \<and>
         inputs w 0 = Returns answer \<and> str_strip answer = ''3''))
   \<and> (webex_ok w \<and> list_reports w 0 = Returns reports \<and> length reports = 50 \<and>
        inputs w 0 = Returns answer \<and> str_strip answer = ''3'' \<longrightarrow>
        fst (run_report fromiso reader w cfg m) = Some (SystemExit 1))"
proof
  show "fst (run_report fromiso reader w cfg m) = Some e \<longrightarrow>
      e = SystemExit 1 \<and> webex_ok w \<and>
      (\<exists>reports answer. list_reports w 0 = Returns reports \<and> length reports = 50 \<and>
         inputs w 0 = Returns answer \<and> str_strip answer = ''3'')"
  proof
    assume raised: "fst (run_report fromiso reader w cfg m) = Some e"
    obtain h evs where h: "handle_existing_reports w = (h, evs)" by fastforce
    show "e = SystemExit 1 \<and> webex_ok w \<and>
      (\<exists>reports answer. list_reports w 0 = Returns reports \<and> length reports = 50 \<and>
         inputs w 0 = Returns answer \<and> str_strip answer = ''3'')"
    proof (cases h)
      case (Inl x)
      with raised h have "x = e" "\<not> is_Exception e"
        by (auto simp: run_report_def run_except_def split: if_splits)
      with handle_existing_reports_error[of w x evs] h Inl show ?thesis by auto
    next
      case (Inr go)
      have False
        using raised h Inr
        by (auto simp: run_report_def run_except_def is_Exception_def
            split: if_splits prod.splits option.splits list.splits sum.splits
            dest: process_all_error delete_report_error fetch_cdr_data_based_on_config_error)
      then show ?thesis ..
    qed
  qed
next
  show "webex_ok w \<and> list_reports w 0 = Returns reports \<and> length reports = 50 \<and>
        inputs w 0 = Returns answer \<and> str_strip answer = ''3'' \<longrightarrow>
        fst (run_report fromiso reader w cfg m) = Some (SystemExit 1)"
    by (simp add: run_report_def handle_existing_reports_def get_all_reports_def
        remediate_def run_except_def is_Exception_def)
qed

text \<open>Fifty stored reports and the answer \<^verbatim>\<open>" 3"\<close>.\<close>

theorem only_exit_leaves_run_witness:
  "fst (run_report (\<lambda>s. None) (\<lambda>ls. Returns [[''Duration'' \<mapsto> PStr ''5'']]) \<lparr>webex_ok = True, cdr_report = Returns (Some ''R1''), report_status = (\<lambda>k. (0, Returns ''done'')), get_report_lines = Returns [''Duration'', ''5''], list_reports = (\<lambda>k. Returns (replicate 50 ''old'')), inputs = (\<lambda>k. Returns '' 3''), delete_status = (\<lambda>r. Returns 204)\<rparr> \<lparr>NUMBER_OF_DAYS_CDR_REPORT = Some 7, START_DATE = None, END_DATE = None\<rparr> init_metrics) = Some (SystemExit 1)"
proof -
  have "str_strip '' 3'' = ''3''"
    by code_simp
  with only_exit_leaves_run[of "\<lambda>s. None" "(\<lambda>ls. Returns [[''Duration'' \<mapsto> PStr ''5'']])" "\<lparr>webex_ok = True, cdr_report = Returns (Some ''R1''), report_status = (\<lambda>k. (0, Returns ''done'')), get_report_lines = Returns [''Duration'', ''5''], list_reports = (\<lambda>k. Returns (replicate 50 ''old'')), inputs = (\<lambda>k. Returns '' 3''), delete_status = (\<lambda>r. Returns 204)\<rparr>" "\<lparr>NUMBER_OF_DAYS_CDR_REPORT = Some 7, START_DATE = None, END_DATE = None\<rparr>" init_metrics
      "SystemExit 1" "replicate 50 ''old''" "'' 3''"]
  show ?thesis by simp
qed

text \<open>
  C5 as stated fails: with 50 stored reports and the answer 3 the run lists the
  reports, reads the answer, exits, and \<^verbatim>\<open>SystemExit(1)\<close> reaches the caller.
\<close>

theorem abort_raises_system_exit:
  "run_report (\<lambda>s. None) (\<lambda>ls. Returns [[''Duration'' \<mapsto> PStr ''5'']]) \<lparr>webex_ok = True, cdr_report = Returns (Some ''R1''), report_status = (\<lambda>k. (0, Returns ''done'')), get_report_lines = Returns [''Duration'', ''5''], list_reports = (\<lambda>k. Returns (replicate 50 ''old'')), inputs = (\<lambda>k. Returns '' 3''), delete_status = (\<lambda>r. Returns 204)\<rparr> \<lparr>NUMBER_OF_DAYS_CDR_REPORT = Some 7, START_DATE = None, END_DATE = None\<rparr> init_metrics
     = (Some (SystemExit 1), init_metrics, [ListReports, Input, Exit])"
  by code_simp

text \<open>
  C6, as the code has it: once the quota guard has passed and the poller has returned
  rows and a report id, the report is deleted after the rows were written and
  aggregated without an exception leaving \<^verbatim>\<open>process_all_cdr_records\<close>. When an
  exception leaves it, the run logs the error and makes no deletion request; when the
  poller returned no row at all, the run logs that and makes no deletion request either.
\<close>

theorem report_deleted_after_aggregation:
  assumes "handle_existing_reports w = (Inr True, evs1)"
    and "fetch_cdr_data_based_on_config reader w cfg = (Inr (Some (rows, report_id)), evs2)"
  shows "(rows \<noteq> [] \<and> snd (process_all_cdr_records fromiso m rows) = None \<longrightarrow>
            (\<exists>tail. snd (snd (run_report fromiso reader w cfg m))
                      = evs1 @ evs2 @ WriteCsv # Delete report_id # tail))
       \<and> (rows \<noteq> [] \<and> snd (process_all_cdr_records fromiso m rows) = Some e \<longrightarrow>
            snd (snd (run_report fromiso reader w cfg m)) = evs1 @ evs2 @ [WriteCsv, LogRunError])
       \<and> (rows = [] \<longrightarrow>
            snd (snd (run_report fromiso reader w cfg m)) = evs1 @ evs2 @ [LogNothingToProcess])"
proof -
  obtain m' x where p: "process_all_cdr_records fromiso m rows = (m', x)" by fastforce
  have 1: "rows \<noteq> [] \<and> snd (process_all_cdr_records fromiso m rows) = None \<longrightarrow>
            (\<exists>tail. snd (snd (run_report fromiso reader w cfg m))
                      = evs1 @ evs2 @ WriteCsv # Delete report_id # tail)"
    using assms p
    by (auto simp: run_report_def run_except_def delete_report_def
        split: list.splits reply.splits)
  have 2: "rows \<noteq> [] \<and> snd (process_all_cdr_records fromiso m rows) = Some e \<longrightarrow>
            snd (snd (run_report fromiso reader w cfg m)) = evs1 @ evs2 @ [WriteCsv, LogRunError]"
    using assms p process_all_error[of fromiso m rows m' e]
    by (auto simp: run_report_def run_except_def split: list.splits)
  have 3: "rows = [] \<longrightarrow>
            snd (snd (run_report fromiso reader w cfg m)) = evs1 @ evs2 @ [LogNothingToProcess]"
    using assms by (simp add: run_report_def)
  from 1 2 3 show ?thesis by blast
qed

text \<open>A report of one row with duration 5.\<close>

theorem report_deleted_after_aggregation_witness:
  "\<exists>tail. snd (snd (run_report (\<lambda>s. None) (\<lambda>ls. Returns [[''Duration'' \<mapsto> PStr ''5'']]) \<lparr>webex_ok = True, cdr_report = Returns (Some ''R1''), report_status = (\<lambda>k. (0, Returns ''done'')), get_report_lines = Returns [''Duration'', ''5''], list_reports = (\<lambda>k. Returns []), inputs = (\<lambda>k. Returns []), delete_status = (\<lambda>r. Returns 204)\<rparr> \<lparr>NUMBER_OF_DAYS_CDR_REPORT = Some 7, START_DATE = None, END_DATE = None\<rparr> init_metrics))
     = [ListReports] @ [CreateDays 7, ReadClock, ReadClock, Sleep 30, Status (Some ''R1''),
          GetLines (Some ''R1'')] @ WriteCsv # Delete (Some ''R1'') # tail"
proof -
  have h: "handle_existing_reports \<lparr>webex_ok = True, cdr_report = Returns (Some ''R1''), report_status = (\<lambda>k. (0, Returns ''done'')), get_report_lines = Returns [''Duration'', ''5''], list_reports = (\<lambda>k. Returns []), inputs = (\<lambda>k. Returns []), delete_status = (\<lambda>r. Returns 204)\<rparr> = (Inr True, [ListReports])"
    by code_simp
  have pl: "poll_loop \<lparr>webex_ok = True, cdr_report = Returns (Some ''R1''), report_status = (\<lambda>k. (0, Returns ''done'')), get_report_lines = Returns [''Duration'', ''5''], list_reports = (\<lambda>k. Returns []), inputs = (\<lambda>k. Returns []), delete_status = (\<lambda>r. Returns 204)\<rparr> (Some ''R1'') 0 0 ''unknown''
              = (PollDone, [ReadClock, Sleep 30, Status (Some ''R1'')])"
    by code_simp
  have f: "fetch_cdr_data_based_on_config (\<lambda>ls. Returns [[''Duration'' \<mapsto> PStr ''5'']]) \<lparr>webex_ok = True, cdr_report = Returns (Some ''R1''), report_status = (\<lambda>k. (0, Returns ''done'')), get_report_lines = Returns [''Duration'', ''5''], list_reports = (\<lambda>k. Returns []), inputs = (\<lambda>k. Returns []), delete_status = (\<lambda>r. Returns 204)\<rparr> \<lparr>NUMBER_OF_DAYS_CDR_REPORT = Some 7, START_DATE = None, END_DATE = None\<rparr>
             = (Inr (Some ([[''Duration'' \<mapsto> PStr ''5'']], Some ''R1'')),
                [CreateDays 7, ReadClock, ReadClock, Sleep 30, Status (Some ''R1''),
                 GetLines (Some ''R1'')])"
    by (simp add: fetch_cdr_data_based_on_config_def fetch_cdr_data_def opt_truthy_def pl)
  have p: "snd (process_all_cdr_records (\<lambda>s. None) init_metrics [[''Duration'' \<mapsto> PStr ''5'']]) = None"
    by code_simp
  from report_deleted_after_aggregation[OF h f, of "\<lambda>s. None" init_metrics] p
  show ?thesis by simp
qed

text \<open>
  C6 as stated fails: the report lines \<^verbatim>\<open>User,Duration\<close> and \<^verbatim>\<open>bob\<close> are read as
  the row \<^verbatim>\<open>{'User': 'bob', 'Duration': None}\<close>; line 154 raises
  \<^verbatim>\<open>AttributeError\<close>, which line 190 does not catch, and the run ends without a
  deletion request for the report.
\<close>

theorem failed_aggregation_leaves_report:
  "snd (snd (run_report (\<lambda>s. None) (\<lambda>ls. Returns [[''User'' \<mapsto> PStr ''bob'', ''Duration'' \<mapsto> PNone]]) \<lparr>webex_ok = True, cdr_report = Returns (Some ''R1''), report_status = (\<lambda>k. (0, Returns ''done'')), get_report_lines = Returns [''User,Duration'', ''bob''], list_reports = (\<lambda>k. Returns []), inputs = (\<lambda>k. Returns []), delete_status = (\<lambda>r. Returns 204)\<rparr> \<lparr>NUMBER_OF_DAYS_CDR_REPORT = Some 7, START_DATE = None, END_DATE = None\<rparr> init_metrics))
     = [ListReports, CreateDays 7, ReadClock, ReadClock, Sleep 30, Status (Some ''R1''),
        GetLines (Some ''R1''), WriteCsv, LogRunError]"
proof -
  have h: "handle_existing_reports \<lparr>webex_ok = True, cdr_report = Returns (Some ''R1''), report_status = (\<lambda>k. (0, Returns ''done'')), get_report_lines = Returns [''User,Duration'', ''bob''], list_reports = (\<lambda>k. Returns []), inputs = (\<lambda>k. Returns []), delete_status = (\<lambda>r. Returns 204)\<rparr> = (Inr True, [ListReports])"
    by code_simp
  have pl: "poll_loop \<lparr>webex_ok = True, cdr_report = Returns (Some ''R1''), report_status = (\<lambda>k. (0, Returns ''done'')), get_report_lines = Returns [''User,Duration'', ''bob''], list_reports = (\<lambda>k. Returns []), inputs = (\<lambda>k. Returns []), delete_status = (\<lambda>r. Returns 204)\<rparr> (Some ''R1'') 0 0 ''unknown''
              = (PollDone, [ReadClock, Sleep 30, Status (Some ''R1'')])"
    by code_simp
  have f: "fetch_cdr_data_based_on_config (\<lambda>ls. Returns [[''User'' \<mapsto> PStr ''bob'', ''Duration'' \<mapsto> PNone]]) \<lparr>webex_ok = True, cdr_report = Returns (Some ''R1''), report_status = (\<lambda>k. (0, Returns ''done'')), get_report_lines = Returns [''User,Duration'', ''bob''], list_reports = (\<lambda>k. Returns []), inputs = (\<lambda>k. Returns []), delete_status = (\<lambda>r. Returns 204)\<rparr> \<lparr>NUMBER_OF_DAYS_CDR_REPORT = Some 7, START_DATE = None, END_DATE = None\<rparr>
             = (Inr (Some ([[''User'' \<mapsto> PStr ''bob'', ''Duration'' \<mapsto> PNone]], Some ''R1'')),
                [CreateDays 7, ReadClock, ReadClock, Sleep 30, Status (Some ''R1''),
                 GetLines (Some ''R1'')])"
    by (simp add: fetch_cdr_data_based_on_config_def fetch_cdr_data_def opt_truthy_def pl)
  have d: "parse_duration [''User'' \<mapsto> PStr ''bob'', ''Duration'' \<mapsto> PNone] = Inl AttributeError"
    by code_simp
  have p: "process_all_cdr_records (\<lambda>s. None) init_metrics
             [[''User'' \<mapsto> PStr ''bob'', ''Duration'' \<mapsto> PNone]] = (init_metrics, Some AttributeError)"
    by (simp add: process_all_cdr_records_def process_call_record_def d)
  show ?thesis
    by (simp add: run_report_def h f p run_except_def is_Exception_def)
qed

end
